theory Spec2Isabelle
  imports Main "HOL-Library.AList"
begin

section \<open>The signaling hub (server/index.ts)\<close>

subsection \<open>Values exchanged with the clients\<close>

text \<open>
  The result of \<^verbatim>\<open>JSON.parse\<close>. An object is its list of fields in insertion order;
  \<^verbatim>\<open>JSON.parse\<close> keeps one value per key, so the keys of a parsed object are distinct.
  Numbers are kept as integers: no handler of the hub computes with them.
\<close>

datatype json =
    JNull
  | JBool bool
  | JNum int
  | JString string
  | JArray "json list"
  | JObject "(string \<times> json) list"

text \<open>The exception a property read on \<^verbatim>\<open>null\<close> throws.\<close>

datatype hub_error = TypeError

text \<open>
  \<^verbatim>\<open>data.k\<close> for the property names the hub reads (\<^verbatim>\<open>type\<close>, \<^verbatim>\<open>username\<close>,
  \<^verbatim>\<open>text\<close>, \<^verbatim>\<open>targetUserId\<close>): only an object has them; \<open>None\<close> is
  \<^verbatim>\<open>undefined\<close>.
\<close>

fun member :: "json \<Rightarrow> string \<Rightarrow> json option" where
  "member (JObject fields) k = map_of fields k"
| "member _ k = None"

text \<open>The fields an object spread \<^verbatim>\<open>{...data}\<close> copies.\<close>

fun own_fields :: "json \<Rightarrow> (string \<times> json) list" where
  "own_fields (JObject fields) = fields"
| "own_fields _ = []"

text \<open>JavaScript truthiness of a JSON value.\<close>

fun truthy :: "json \<Rightarrow> bool" where
  "truthy JNull = False"
| "truthy (JBool b) = b"
| "truthy (JNum n) = (n \<noteq> 0)"
| "truthy (JString s) = (s \<noteq> [])"
| "truthy (JArray xs) = True"
| "truthy (JObject fs) = True"

text \<open>\<^verbatim>\<open>data.text || ''\<close>\<close>

definition text_or_empty :: "json option \<Rightarrow> json" where
  "text_or_empty v = (case v of None \<Rightarrow> JString [] | Some j \<Rightarrow> if truthy j then j else JString [])"

text \<open>
  \<^verbatim>\<open>String.prototype.trim\<close> on 8-bit characters: tab, line feed, vertical tab, form
  feed, carriage return, space and no-break space are white space.
\<close>

definition js_whitespace :: "char \<Rightarrow> bool" where
  "js_whitespace c \<longleftrightarrow>
     c \<in> set [CHR 0x09, CHR 0x0A, CHR 0x0B, CHR 0x0C, CHR 0x0D, CHR 0x20, CHR 0xA0]"

definition trim :: "string \<Rightarrow> string" where
  "trim s = rev (dropWhile js_whitespace (rev (dropWhile js_whitespace s)))"

subsection \<open>State of the hub\<close>

type_synonym websocket = nat

datatype ready_state = CONNECTING | OPEN | CLOSING | CLOSED

text \<open>The value type of \<^verbatim>\<open>clients\<close>, and \<^verbatim>\<open>ConnectedUser\<close>, which adds the socket.\<close>

record client_info =
  username :: string
  userId :: string

record ConnectedUser = client_info +
  ws :: websocket

text \<open>
  The module's variables. \<^verbatim>\<open>wss.clients\<close> is the server's set of sockets, in insertion
  order; every JavaScript \<^verbatim>\<open>Map\<close> that is iterated is an association list in insertion
  order (\<^verbatim>\<open>set\<close> on a present key keeps its place, as \<open>AList.update\<close> does). A
  \<^verbatim>\<open>UserAudioState\<close> \<^verbatim>\<open>{userId, isAudioEnabled}\<close> is always stored under its own
  \<^verbatim>\<open>userId\<close>, so the map entry \<open>(userId, flag)\<close> is the record.
  \<open>listening\<close> holds the sockets on which the connection handler has registered its
  \<^verbatim>\<open>message\<close> and \<^verbatim>\<open>close\<close> listeners.
\<close>

record hub =
  wss_clients :: "websocket list"
  readyState :: "websocket \<Rightarrow> ready_state"
  listening :: "websocket list"
  clients :: "websocket \<rightharpoonup> client_info"
  connectedUsers :: "(string \<times> ConnectedUser) list"
  userAudioStates :: "(string \<times> bool) list"
  userVideoStates :: "(string \<times> bool) list"
  userAudioConnections :: "(string \<times> string list) list"

definition init_hub :: hub where
  "init_hub = \<lparr>wss_clients = [], readyState = (\<lambda>_. CONNECTING), listening = [],
     clients = Map.empty, connectedUsers = [], userAudioStates = [], userVideoStates = [],
     userAudioConnections = []\<rparr>"

definition MAX_CLIENTS :: nat where
  "MAX_CLIENTS = 200"

subsection \<open>Messages sent by the hub\<close>

datatype hub_msg =
    Error string
  | RequestUsername
  | UserList "(string \<times> string) list"
  | UsernameAccepted string string
  | System string int
  | Chat string json int
  | AudioStates "(string \<times> bool) list"
  | VideoStates "(string \<times> bool) list"
  | Signal "(string \<times> json) list"

datatype action = Send websocket hub_msg | CloseSocket websocket

text \<open>The sockets \<^verbatim>\<open>broadcast\<close> reaches: those of \<^verbatim>\<open>wss.clients\<close> that are open.\<close>

definition open_clients :: "hub \<Rightarrow> websocket list" where
  "open_clients s = filter (\<lambda>client. readyState s client = OPEN) (wss_clients s)"

definition broadcast :: "hub \<Rightarrow> hub_msg \<Rightarrow> websocket option \<Rightarrow> action list" where
  "broadcast s msg exceptWs =
     map (\<lambda>client. Send client msg)
       (filter (\<lambda>client. readyState s client = OPEN \<and> Some client \<noteq> exceptWs) (wss_clients s))"

definition sendToClient :: "hub \<Rightarrow> websocket \<Rightarrow> hub_msg \<Rightarrow> action list" where
  "sendToClient s w msg = (if readyState s w = OPEN then [Send w msg] else [])"

text \<open>
  \<^verbatim>\<open>Math.random().toString(36).substr(2, 9)\<close>; the argument is the string
  \<^verbatim>\<open>Math.random().toString(36)\<close>, which the environment supplies.
\<close>

definition generateUserId :: "string \<Rightarrow> string" where
  "generateUserId r = take 9 (drop 2 r)"

definition user_list :: "hub \<Rightarrow> (string \<times> string) list" where
  "user_list s = map (\<lambda>user. (userId user, username user)) (map snd (connectedUsers s))"

definition broadcastUserList :: "hub \<Rightarrow> action list" where
  "broadcastUserList s = broadcast s (UserList (user_list s)) None"

definition broadcastAudioStates :: "hub \<Rightarrow> action list" where
  "broadcastAudioStates s = broadcast s (AudioStates (userAudioStates s)) None"

definition broadcastVideoStates :: "hub \<Rightarrow> action list" where
  "broadcastVideoStates s = broadcast s (VideoStates (userVideoStates s)) None"

subsection \<open>The connection handler\<close>

text \<open>\<^verbatim>\<open>ws.close()\<close>: an open socket starts its closing handshake.\<close>

definition socket_close :: "websocket \<Rightarrow> hub \<Rightarrow> hub" where
  "socket_close w s =
     (if readyState s w = CLOSED then s else s\<lparr>readyState := (readyState s)(w := CLOSING)\<rparr>)"

text \<open>
  The body of \<^verbatim>\<open>wss.on('connection', ...)\<close> up to the registration of the listeners. The
  server has already added the socket to \<^verbatim>\<open>wss.clients\<close> when it runs.
\<close>

definition on_connection :: "websocket \<Rightarrow> hub \<Rightarrow> action list \<times> hub" where
  "on_connection w s =
     (if length (wss_clients s) > MAX_CLIENTS then
        (sendToClient s w (Error ''Server full. Try again later.'') @ [CloseSocket w],
         socket_close w s)
      else
        (sendToClient s w RequestUsername @ sendToClient s w (UserList (user_list s)),
         s\<lparr>listening := listening s @ [w]\<rparr>))"

subsection \<open>The message handler\<close>

datatype inbound = BinaryFrame | TextFrame "json option"

text \<open>The accepting branch of \<^verbatim>\<open>set_username\<close>; \<open>r\<close> feeds the id generator.\<close>

definition set_username :: "websocket \<Rightarrow> string \<Rightarrow> string \<Rightarrow> int \<Rightarrow> hub \<Rightarrow> action list \<times> hub" where
  "set_username w name r now s =
     (let uid = generateUserId r;
          uname = trim name;
          s1 = s\<lparr>clients := (clients s)(w \<mapsto> \<lparr>username = uname, userId = uid\<rparr>),
                 connectedUsers :=
                   AList.update uid \<lparr>username = uname, userId = uid, ws = w\<rparr> (connectedUsers s)\<rparr>
      in (sendToClient s1 w (UsernameAccepted uname uid)
          @ broadcast s1 (System (uname @ '' joined the chat.'') now) (Some w)
          @ broadcastUserList s1
          @ broadcastAudioStates s1
          @ broadcastVideoStates s1,
          s1))"

definition chat :: "websocket \<Rightarrow> json \<Rightarrow> int \<Rightarrow> hub \<Rightarrow> action list \<times> hub" where
  "chat w data now s =
     (let clientInfo = (case clients s w of
                          Some info \<Rightarrow> info
                        | None \<Rightarrow> \<lparr>username = ''Anonymous'', userId = []\<rparr>)
      in (broadcast s (Chat (username clientInfo) (text_or_empty (member data ''text'')) now) None,
          s))"

definition set_audio :: "websocket \<Rightarrow> bool \<Rightarrow> hub \<Rightarrow> action list \<times> hub" where
  "set_audio w enabled s =
     (case clients s w of
        Some clientInfo \<Rightarrow>
          (let s1 = s\<lparr>userAudioStates :=
                       AList.update (userId clientInfo) enabled (userAudioStates s)\<rparr>
           in (broadcastAudioStates s1, s1))
      | None \<Rightarrow> ([], s))"

definition set_video :: "websocket \<Rightarrow> bool \<Rightarrow> hub \<Rightarrow> action list \<times> hub" where
  "set_video w enabled s =
     (case clients s w of
        Some clientInfo \<Rightarrow>
          (let s1 = s\<lparr>userVideoStates :=
                       AList.update (userId clientInfo) enabled (userVideoStates s)\<rparr>
           in (broadcastVideoStates s1, s1))
      | None \<Rightarrow> ([], s))"

text \<open>
  \<^verbatim>\<open>connectedUsers.get(data.targetUserId)\<close>: the keys are strings, so only a string
  finds an entry.
\<close>

definition get_user :: "hub \<Rightarrow> json option \<Rightarrow> ConnectedUser option" where
  "get_user s key = (case key of Some (JString k) \<Rightarrow> map_of (connectedUsers s) k | _ \<Rightarrow> None)"

text \<open>
  The relay of \<^verbatim>\<open>webrtc_offer\<close>, \<^verbatim>\<open>webrtc_answer\<close> and \<^verbatim>\<open>webrtc_ice_candidate\<close>:
  \<^verbatim>\<open>{...data, senderUserId: ..., senderUsername: ...}\<close> writes the two properties over
  the copied ones.
\<close>

definition relay :: "websocket \<Rightarrow> json \<Rightarrow> hub \<Rightarrow> action list \<times> hub" where
  "relay w data s =
     (case get_user s (member data ''targetUserId'') of
        Some targetUser \<Rightarrow>
          (if readyState s (ws targetUser) = OPEN then
             (case clients s w of
                Some senderInfo \<Rightarrow>
                  ([Send (ws targetUser)
                      (Signal
                        (AList.update ''senderUsername'' (JString (username senderInfo))
                          (AList.update ''senderUserId'' (JString (userId senderInfo))
                            (own_fields data))))],
                   s)
              | None \<Rightarrow> ([], s))
           else ([], s))
      | None \<Rightarrow> ([], s))"

definition is_type :: "json \<Rightarrow> string \<Rightarrow> bool" where
  "is_type data t \<longleftrightarrow> member data ''type'' = Some (JString t)"

definition is_signaling :: "json \<Rightarrow> bool" where
  "is_signaling data \<longleftrightarrow>
     is_type data ''webrtc_offer'' \<or> is_type data ''webrtc_answer''
       \<or> is_type data ''webrtc_ice_candidate''"

definition on_message ::
  "websocket \<Rightarrow> inbound \<Rightarrow> string \<Rightarrow> int \<Rightarrow> hub \<Rightarrow> hub_error + action list \<times> hub" where
  "on_message w frame r now s =
     (case frame of
        BinaryFrame \<Rightarrow> Inr ([], s)
      | TextFrame None \<Rightarrow> Inr (sendToClient s w (Error ''Invalid JSON''), s)
      | TextFrame (Some data) \<Rightarrow>
          if data = JNull then Inl TypeError
          else if is_type data ''set_username'' then
            (case member data ''username'' of
               Some (JString name) \<Rightarrow>
                 if length (trim name) > 0 then Inr (set_username w name r now s)
                 else Inr (sendToClient s w (Error ''Invalid username''), s)
             | _ \<Rightarrow> Inr (sendToClient s w (Error ''Invalid username''), s))
          else if is_type data ''chat'' then Inr (chat w data now s)
          else if is_type data ''audio_enabled'' then Inr (set_audio w True s)
          else if is_type data ''audio_disabled'' then Inr (set_audio w False s)
          else if is_type data ''video_enabled'' then Inr (set_video w True s)
          else if is_type data ''video_disabled'' then Inr (set_video w False s)
          else if is_signaling data then Inr (relay w data s)
          else Inr ([], s))"

subsection \<open>The close handler\<close>

definition on_close :: "websocket \<Rightarrow> int \<Rightarrow> hub \<Rightarrow> action list \<times> hub" where
  "on_close w now s =
     (case clients s w of
        Some clientInfo \<Rightarrow>
          (let a1 = broadcast s (System (username clientInfo @ '' left the chat.'') now) (Some w);
               s1 = s\<lparr>connectedUsers := AList.delete (userId clientInfo) (connectedUsers s)\<rparr>;
               a2 = broadcastUserList s1;
               s2 = s1\<lparr>userAudioStates := AList.delete (userId clientInfo) (userAudioStates s1),
                       userVideoStates := AList.delete (userId clientInfo) (userVideoStates s1)\<rparr>;
               a3 = broadcastAudioStates s2;
               a4 = broadcastVideoStates s2;
               s3 = s2\<lparr>userAudioConnections :=
                         AList.delete (userId clientInfo) (userAudioConnections s2)\<rparr>
           in (a1 @ a2 @ a3 @ a4, s3\<lparr>clients := (clients s3)(w := None)\<rparr>))
      | None \<Rightarrow> ([], s\<lparr>clients := (clients s)(w := None)\<rparr>))"

subsection \<open>Events\<close>

text \<open>
  What the WebSocket server delivers to the handlers. On a new connection it adds the socket,
  open, to \<^verbatim>\<open>wss.clients\<close> and then emits \<^verbatim>\<open>connection\<close>; when a socket has closed it
  marks it \<^verbatim>\<open>CLOSED\<close>, removes it from \<^verbatim>\<open>wss.clients\<close> and then runs the socket's
  \<^verbatim>\<open>close\<close> listeners. A socket rejected by the connection handler has no listeners.
  A message carries the random string and the clock value its handler will read.
\<close>

datatype event =
    Connection websocket
  | Message websocket inbound string int
  | Closed websocket int

fun hub_step :: "event \<Rightarrow> hub \<Rightarrow> hub_error + action list \<times> hub" where
  "hub_step (Connection w) s =
     Inr (on_connection w
            (s\<lparr>wss_clients := (if w \<in> set (wss_clients s) then wss_clients s
                                else wss_clients s @ [w]),
               readyState := (readyState s)(w := OPEN)\<rparr>))"
| "hub_step (Message w frame r now) s =
     (if w \<in> set (listening s) then on_message w frame r now s else Inr ([], s))"
| "hub_step (Closed w now) s =
     (let s1 = s\<lparr>wss_clients := removeAll w (wss_clients s),
                 readyState := (readyState s)(w := CLOSED)\<rparr>
      in if w \<in> set (listening s)
         then Inr (case on_close w now s1 of
                     (acts, s2) \<Rightarrow> (acts, s2\<lparr>listening := removeAll w (listening s2)\<rparr>))
         else Inr ([], s1))"

text \<open>A run of the hub: the actions of all events in order; an exception ends it.\<close>

fun run :: "event list \<Rightarrow> hub \<Rightarrow> hub_error + action list \<times> hub" where
  "run [] s = Inr ([], s)"
| "run (e # es) s =
     (case hub_step e s of
        Inl err \<Rightarrow> Inl err
      | Inr (acts, s1) \<Rightarrow>
          (case run es s1 of
             Inl err \<Rightarrow> Inl err
           | Inr (acts', s2) \<Rightarrow> Inr (acts @ acts', s2)))"

section \<open>The mesh client (client/src/hooks/useWebSocket.ts)\<close>

text \<open>
  A \<^verbatim>\<open>WebRTCPeer\<close>. Its \<^verbatim>\<open>userId\<close> and \<^verbatim>\<open>username\<close> are whatever
  \<^verbatim>\<open>createPeerConnection\<close> was called with; \<open>None\<close> is \<^verbatim>\<open>undefined\<close>. The connection
  is the handle of the \<^verbatim>\<open>RTCPeerConnection\<close>.
\<close>

record WebRTCPeer =
  connection :: nat
  peerUserId :: "string option"
  peerUsername :: "string option"
  audioElement :: bool

text \<open>
  What \<^verbatim>\<open>initiateCall\<close> is called with: a \<^verbatim>\<open>WebRTCPeer\<close>, or the
  \<^verbatim>\<open>RTCPeerConnection\<close> that \<^verbatim>\<open>createPeerConnection\<close> returns, which
  \<^verbatim>\<open>handleConnectionFailure\<close> passes on.
\<close>

datatype call_arg = PeerObject WebRTCPeer | ConnectionObject nat

datatype timer =
    CreateConnections "(string \<times> string) list"
  | InitiateCallTo string
  | ConnectionTimeout call_arg
  | Reconnect "string option" "string option"

text \<open>
  What a handler does to the platform. \<open>CreateOffer\<close> and \<open>SetLocalDescription\<close> are the
  two calls \<^verbatim>\<open>initiateCall\<close> awaits: the handler that made the call returns, and
  \<^verbatim>\<open>initiateCall\<close> goes on when the call has settled.
\<close>

datatype effect =
    NewPeerConnection nat
  | AddTrack nat nat
  | ClosePeerConnection nat
  | RemoveAudioElement nat
  | CreateOffer WebRTCPeer
  | SetLocalDescription WebRTCPeer
  | SendOffer "string option"
  | SetTimeout nat timer
  | ClearTimeout timer

text \<open>
  The refs of the hook. \<open>nextConnection\<close> numbers the \<^verbatim>\<open>RTCPeerConnection\<close> objects;
  \<open>wsOpen\<close> is \<^verbatim>\<open>wsRef.current?.readyState === WebSocket.OPEN\<close>.
\<close>

record client =
  userIdRef :: string
  peersRef :: "(string option \<times> WebRTCPeer) list"
  localStreamRef :: "nat list option"
  wsOpen :: bool
  nextConnection :: nat

definition init_client :: client where
  "init_client = \<lparr>userIdRef = [], peersRef = [], localStreamRef = None, wsOpen = True,
     nextConnection = 0\<rparr>"

definition handleConnectionFailure ::
  "string option \<Rightarrow> string option \<Rightarrow> client \<Rightarrow> effect list \<times> client" where
  "handleConnectionFailure uid uname s =
     (case map_of (peersRef s) uid of
        Some oldPeer \<Rightarrow>
          ([ClosePeerConnection (connection oldPeer)]
           @ (if audioElement oldPeer then [RemoveAudioElement (connection oldPeer)] else [])
           @ [SetTimeout 1000 (Reconnect uid uname)],
           s\<lparr>peersRef := AList.delete uid (peersRef s)\<rparr>)
      | None \<Rightarrow> ([SetTimeout 1000 (Reconnect uid uname)], s))"

text \<open>
  \<^verbatim>\<open>initiateCall\<close> up to its first \<^verbatim>\<open>await\<close>: the connection timeout is set and
  \<^verbatim>\<open>createOffer\<close> is called. A connection object has no \<^verbatim>\<open>connection\<close>,
  \<^verbatim>\<open>userId\<close> or \<^verbatim>\<open>username\<close> property: reading \<^verbatim>\<open>peer.connection.createOffer\<close>
  throws inside the \<^verbatim>\<open>try\<close> before anything is awaited, and the \<^verbatim>\<open>catch\<close> calls
  \<^verbatim>\<open>handleConnectionFailure(undefined, undefined)\<close> at once.
\<close>

definition initiateCall :: "call_arg \<Rightarrow> client \<Rightarrow> effect list \<times> client" where
  "initiateCall arg s =
     (case arg of
        PeerObject peer \<Rightarrow> ([SetTimeout 10000 (ConnectionTimeout arg), CreateOffer peer], s)
      | ConnectionObject h \<Rightarrow>
          (case handleConnectionFailure None None s of
             (effs, s1) \<Rightarrow> (SetTimeout 10000 (ConnectionTimeout arg) # effs, s1)))"

text \<open>
  \<^verbatim>\<open>initiateCall\<close> after \<^verbatim>\<open>createOffer\<close> has settled (\<open>ok\<close>: it was fulfilled): it
  calls \<^verbatim>\<open>setLocalDescription\<close>, or the \<^verbatim>\<open>catch\<close> runs.
\<close>

definition offer_created :: "WebRTCPeer \<Rightarrow> bool \<Rightarrow> client \<Rightarrow> effect list \<times> client" where
  "offer_created peer ok s =
     (if ok then ([SetLocalDescription peer], s)
      else handleConnectionFailure (peerUserId peer) (peerUsername peer) s)"

text \<open>
  \<^verbatim>\<open>initiateCall\<close> after \<^verbatim>\<open>setLocalDescription\<close> has settled: the offer is sent if the
  socket is open and the connection timeout is cleared, or the \<^verbatim>\<open>catch\<close> runs.
\<close>

definition description_set :: "WebRTCPeer \<Rightarrow> bool \<Rightarrow> client \<Rightarrow> effect list \<times> client" where
  "description_set peer ok s =
     (if ok then
        ((if wsOpen s then [SendOffer (peerUserId peer)] else [])
         @ [ClearTimeout (ConnectionTimeout (PeerObject peer))], s)
      else handleConnectionFailure (peerUserId peer) (peerUsername peer) s)"

text \<open>
  \<^verbatim>\<open>createPeerConnection\<close> returns the connection, not the peer. Its call of
  \<^verbatim>\<open>initiateCall\<close> is not awaited.
\<close>

definition createPeerConnection ::
  "string option \<Rightarrow> string option \<Rightarrow> client \<Rightarrow> nat \<times> effect list \<times> client" where
  "createPeerConnection uid uname s =
     (let peerConnection = nextConnection s;
          tracks = (case localStreamRef s of
                      Some ts \<Rightarrow> map (AddTrack peerConnection) ts
                    | None \<Rightarrow> []);
          peer = \<lparr>connection = peerConnection, peerUserId = uid, peerUsername = uname,
                  audioElement = False\<rparr>;
          s1 = s\<lparr>peersRef := AList.update uid peer (peersRef s),
                 nextConnection := Suc (nextConnection s)\<rparr>
      in if localStreamRef s \<noteq> None \<and> userIdRef s \<noteq> [] then
           (case initiateCall (PeerObject peer) s1 of
              (effs, s2) \<Rightarrow> (peerConnection, NewPeerConnection peerConnection # tracks @ effs, s2))
         else (peerConnection, NewPeerConnection peerConnection # tracks, s1))"

text \<open>\<^verbatim>\<open>createPeerConnections\<close>: the \<^verbatim>\<open>forEach\<close> over the membership list.\<close>

fun createPeerConnections :: "(string \<times> string) list \<Rightarrow> client \<Rightarrow> effect list \<times> client" where
  "createPeerConnections [] s = ([], s)"
| "createPeerConnections ((uid, uname) # users) s =
     (if uid \<noteq> userIdRef s \<and> map_of (peersRef s) (Some uid) = None then
        (case createPeerConnection (Some uid) (Some uname) s of
           (peer, effs, s1) \<Rightarrow>
             (let call = (if userIdRef s1 \<noteq> [] then [SetTimeout 100 (InitiateCallTo uid)] else [])
              in case createPeerConnections users s1 of
                   (effs', s2) \<Rightarrow> (effs @ call @ effs', s2)))
      else createPeerConnections users s)"

text \<open>
  The callback of the retry timer of \<^verbatim>\<open>handleConnectionFailure\<close>: it calls
  \<^verbatim>\<open>initiateCall\<close> with the connection that \<^verbatim>\<open>createPeerConnection\<close> returned.
\<close>

definition reconnect :: "string option \<Rightarrow> string option \<Rightarrow> client \<Rightarrow> effect list \<times> client" where
  "reconnect uid uname s =
     (case createPeerConnection uid uname s of
        (newPeer, effs, s1) \<Rightarrow>
          (case initiateCall (ConnectionObject newPeer) s1 of
             (effs', s2) \<Rightarrow> (effs @ effs', s2)))"

text \<open>
  The callbacks of the timers. \<open>connected\<close> is the value of
  \<^verbatim>\<open>peer.connection.connectionState === 'connected'\<close> when the connection timeout fires.
  The connection timeout of a call made with a connection object reads
  \<^verbatim>\<open>peer.connection.connectionState\<close> and throws.
\<close>

datatype client_error = UncaughtTypeError

fun fire :: "timer \<Rightarrow> bool \<Rightarrow> client \<Rightarrow> client_error + effect list \<times> client" where
  "fire (CreateConnections users) connected s = Inr (createPeerConnections users s)"
| "fire (InitiateCallTo uid) connected s =
     (case map_of (peersRef s) (Some uid) of
        Some peerObj \<Rightarrow> Inr (initiateCall (PeerObject peerObj) s)
      | None \<Rightarrow> Inr ([], s))"
| "fire (ConnectionTimeout (PeerObject peer)) connected s =
     (if \<not> connected
      then Inr (handleConnectionFailure (peerUserId peer) (peerUsername peer) s)
      else Inr ([], s))"
| "fire (ConnectionTimeout (ConnectionObject h)) connected s = Inl UncaughtTypeError"
| "fire (Reconnect uid uname) connected s = Inr (reconnect uid uname s)"

text \<open>
  What happens to the hook, as far as the refs above are read or written: the
  \<^verbatim>\<open>user_list\<close> and \<^verbatim>\<open>username_accepted\<close> cases of \<^verbatim>\<open>handleMessage\<close>, a timer
  that fires, a settled \<^verbatim>\<open>createOffer\<close> or \<^verbatim>\<open>setLocalDescription\<close>, and a
  connection that reports \<^verbatim>\<open>failed\<close>, whose \<^verbatim>\<open>onconnectionstatechange\<close> calls
  \<^verbatim>\<open>handleConnectionFailure\<close> with the id and name the connection was created for. An
  exception that a timer callback does not catch ends the callback only.
\<close>

datatype client_event =
    GotUserList "(string \<times> string) list"
  | GotUsernameAccepted string
  | Fired timer bool
  | OfferCreated WebRTCPeer bool
  | DescriptionSet WebRTCPeer bool
  | ConnectionFailed string string

fun client_step :: "client_event \<Rightarrow> client \<Rightarrow> effect list \<times> client" where
  "client_step (GotUserList users) s = ([SetTimeout 100 (CreateConnections users)], s)"
| "client_step (GotUsernameAccepted uid) s = ([], s\<lparr>userIdRef := uid\<rparr>)"
| "client_step (Fired t connected) s =
     (case fire t connected s of Inl err \<Rightarrow> ([], s) | Inr res \<Rightarrow> res)"
| "client_step (OfferCreated peer ok) s = offer_created peer ok s"
| "client_step (DescriptionSet peer ok) s = description_set peer ok s"
| "client_step (ConnectionFailed uid uname) s = handleConnectionFailure (Some uid) (Some uname) s"

fun client_run :: "client_event list \<Rightarrow> client \<Rightarrow> effect list \<times> client" where
  "client_run [] s = ([], s)"
| "client_run (e # es) s =
     (case client_step e s of
        (effs, s1) \<Rightarrow> (case client_run es s1 of (effs', s2) \<Rightarrow> (effs @ effs', s2)))"

section \<open>Notions used by the properties\<close>

text \<open>The peer ids a message of the hub carries.\<close>

fun msg_ids :: "hub_msg \<Rightarrow> string list" where
  "msg_ids (UserList users) = map fst users"
| "msg_ids (UsernameAccepted name uid) = [uid]"
| "msg_ids (AudioStates states) = map fst states"
| "msg_ids (VideoStates states) = map fst states"
| "msg_ids (Signal props) =
     concat (map (\<lambda>(k, v). case v of JString i \<Rightarrow> [i] | _ \<Rightarrow> []) props)"
| "msg_ids _ = []"

text \<open>What a channel refused for capacity is sent.\<close>

definition rejection :: "websocket \<Rightarrow> action list" where
  "rejection w = [Send w (Error ''Server full. Try again later.''), CloseSocket w]"

text \<open>The state and the actions a run ends with.\<close>

definition final :: "hub_error + action list \<times> hub \<Rightarrow> hub" where
  "final res = snd (projr res)"

definition sent :: "hub_error + action list \<times> hub \<Rightarrow> action list" where
  "sent res = fst (projr res)"

text \<open>The messages among the actions of the hub that go to one socket.\<close>

fun inbox :: "websocket \<Rightarrow> action list \<Rightarrow> hub_msg list" where
  "inbox w [] = []"
| "inbox w (Send w' m # acts) = (if w' = w then m # inbox w acts else inbox w acts)"
| "inbox w (CloseSocket w' # acts) = inbox w acts"

text \<open>The timers among the effects of the client.\<close>

fun is_timeout :: "effect \<Rightarrow> bool" where
  "is_timeout (SetTimeout delay t) = True"
| "is_timeout _ = False"

text \<open>The effects that only build a connection: no offer, no message, no timer.\<close>

fun is_setup :: "effect \<Rightarrow> bool" where
  "is_setup (NewPeerConnection h) = True"
| "is_setup (AddTrack h track) = True"
| "is_setup _ = False"

text \<open>
  A Link that never connects: \<open>n\<close> times in a row the connection to \<open>uid\<close> reports
  \<^verbatim>\<open>failed\<close> and then the retry timer of that failure fires.
\<close>

fun failing_link :: "nat \<Rightarrow> string \<Rightarrow> string \<Rightarrow> client_event list" where
  "failing_link 0 uid uname = []"
| "failing_link (Suc n) uid uname =
     ConnectionFailed uid uname # Fired (Reconnect (Some uid) (Some uname)) False
       # failing_link n uid uname"

subsection \<open>Example inputs\<close>

text \<open>A room with alice registered on socket 1, socket 2 connected, socket 3 closing.\<close>

definition ex_hub :: hub where
  "ex_hub = init_hub\<lparr>wss_clients := [1, 2, 3],
     readyState := (\<lambda>_. CONNECTING)(1 := OPEN, 2 := OPEN, 3 := CLOSING),
     listening := [1, 2],
     clients := [1 \<mapsto> \<lparr>username = ''alice'', userId = ''abcdefghi''\<rparr>],
     connectedUsers := [(''abcdefghi'', \<lparr>username = ''alice'', userId = ''abcdefghi'', ws = 1\<rparr>)]\<rparr>"

definition join_msg :: "string \<Rightarrow> json" where
  "join_msg name = JObject [(''type'', JString ''set_username''), (''username'', JString name)]"

text \<open>
  The hub after \<open>n\<close> connections that never register; and a full hub, 200 peers registered
  on 200 connected sockets.
\<close>

definition crowd :: "nat \<Rightarrow> hub" where
  "crowd n = init_hub\<lparr>wss_clients := [0..<n],
     readyState := (\<lambda>c. if c < n then OPEN else CONNECTING), listening := [0..<n]\<rparr>"

definition packed :: hub where
  "packed = (crowd 200)\<lparr>
     clients := (\<lambda>c. if c < 200 then Some \<lparr>username = ''guest'', userId = replicate c CHR ''x''\<rparr>
                     else None),
     connectedUsers := map (\<lambda>c. (replicate c CHR ''x'',
         \<lparr>username = ''guest'', userId = replicate c CHR ''x'', ws = c\<rparr>)) [0..<200]\<rparr>"

text \<open>
  The room with carol registered on socket 4 as well; an offer that carries a sender id of
  the client's choice; and a chat message.
\<close>

definition ex_pair :: hub where
  "ex_pair = ex_hub\<lparr>wss_clients := [1, 2, 3, 4],
     readyState := (\<lambda>_. CONNECTING)(1 := OPEN, 2 := OPEN, 3 := CLOSING, 4 := OPEN),
     listening := [1, 2, 4],
     clients := [1 \<mapsto> \<lparr>username = ''alice'', userId = ''abcdefghi''\<rparr>,
                 4 \<mapsto> \<lparr>username = ''carol'', userId = ''carolcaro''\<rparr>],
     connectedUsers := [(''abcdefghi'', \<lparr>username = ''alice'', userId = ''abcdefghi'', ws = 1\<rparr>),
                        (''carolcaro'', \<lparr>username = ''carol'', userId = ''carolcaro'', ws = 4\<rparr>)],
     userAudioStates := [(''abcdefghi'', True), (''carolcaro'', False)],
     userVideoStates := [(''carolcaro'', True)]\<rparr>"

definition offer_as :: "string \<Rightarrow> string \<Rightarrow> json" where
  "offer_as target sender = JObject [(''type'', JString ''webrtc_offer''),
     (''targetUserId'', JString target), (''senderUserId'', JString sender),
     (''offer'', JString ''sdp'')]"

definition chat_msg :: "string \<Rightarrow> json" where
  "chat_msg t = JObject [(''type'', JString ''chat''), (''text'', JString t)]"

text \<open>
  The hub's own order of events for two joins: alice connects and joins, then bob connects
  and joins.
\<close>

definition two_joins :: "event list" where
  "two_joins =
     [Connection 1, Message 1 (TextFrame (Some (join_msg ''alice''))) ''0.abcdefghijk'' 10,
      Connection 2, Message 2 (TextFrame (Some (join_msg ''bob''))) ''0.zyxwvutsrqp'' 20]"

definition room_a :: "(string \<times> string) list" where
  "room_a = [(''abcdefghi'', ''alice'')]"

definition room_ab :: "(string \<times> string) list" where
  "room_ab = [(''abcdefghi'', ''alice''), (''zyxwvutsr'', ''bob'')]"

text \<open>
  The Links of the two participants to each other, and alice holding the Link to bob after
  both have joined.
\<close>

definition link_to_bob :: WebRTCPeer where
  "link_to_bob = \<lparr>connection = 0, peerUserId = Some ''zyxwvutsr'', peerUsername = Some ''bob'',
     audioElement = False\<rparr>"

definition link_to_alice :: WebRTCPeer where
  "link_to_alice = \<lparr>connection = 0, peerUserId = Some ''abcdefghi'',
     peerUsername = Some ''alice'', audioElement = False\<rparr>"

definition alice_joined :: client where
  "alice_joined = init_client\<lparr>userIdRef := ''abcdefghi''\<rparr>"

definition alice_linked :: client where
  "alice_linked = alice_joined\<lparr>peersRef := [(Some ''zyxwvutsr'', link_to_bob)],
     nextConnection := 1\<rparr>"

text \<open>
  What happens at alice in the two joins: the messages \<^verbatim>\<open>user_list\<close> and
  \<^verbatim>\<open>username_accepted\<close> in the order the hub sends them, each timer 100 ms after the list
  that set it, and then the call to bob.
\<close>

definition alice_events :: "client_event list" where
  "alice_events =
     [GotUserList [], Fired (CreateConnections []) False,
      GotUsernameAccepted ''abcdefghi'',
      GotUserList room_a, Fired (CreateConnections room_a) False,
      GotUserList room_ab, Fired (CreateConnections room_ab) False,
      Fired (InitiateCallTo ''zyxwvutsr'') False,
      OfferCreated link_to_bob True, DescriptionSet link_to_bob True]"

text \<open>
  What happens at bob, same messages in the same order, in two timings: bob joins after the
  timer of the first list has fired; and bob joins within the 100 ms before it fires.
\<close>

definition bob_slow_events :: "client_event list" where
  "bob_slow_events =
     [GotUserList room_a, Fired (CreateConnections room_a) False,
      GotUsernameAccepted ''zyxwvutsr'',
      GotUserList room_ab, Fired (CreateConnections room_ab) False]"

definition bob_fast_events :: "client_event list" where
  "bob_fast_events =
     [GotUserList room_a,
      GotUsernameAccepted ''zyxwvutsr'',
      GotUserList room_ab,
      Fired (CreateConnections room_a) False, Fired (CreateConnections room_ab) False,
      Fired (InitiateCallTo ''abcdefghi'') False,
      OfferCreated link_to_alice True, DescriptionSet link_to_alice True]"

section \<open>Properties of the hub\<close>

subsection \<open>Auxiliary facts\<close>

lemma broadcast_all: "broadcast s m None = map (\<lambda>c. Send c m) (open_clients s)"
  by (simp add: broadcast_def open_clients_def)

lemma broadcast_except:
  "broadcast s m (Some w) = map (\<lambda>c. Send c m) (filter (\<lambda>c. c \<noteq> w) (open_clients s))"
  by (simp add: broadcast_def open_clients_def conj_commute)

lemma open_clients_upd [simp]:
  "open_clients (s\<lparr>clients := c\<rparr>) = open_clients s"
  "open_clients (s\<lparr>connectedUsers := u\<rparr>) = open_clients s"
  "open_clients (s\<lparr>userAudioStates := a\<rparr>) = open_clients s"
  "open_clients (s\<lparr>userVideoStates := a\<rparr>) = open_clients s"
  "open_clients (s\<lparr>userAudioConnections := x\<rparr>) = open_clients s"
  "open_clients (s\<lparr>listening := l\<rparr>) = open_clients s"
  by (simp_all add: open_clients_def)

lemma is_type_not_null: "is_type data t \<Longrightarrow> data \<noteq> JNull"
  by (auto simp: is_type_def)

lemma is_type_unique: "is_type data t \<Longrightarrow> is_type data t' \<Longrightarrow> t = t'"
  by (auto simp: is_type_def)

lemma on_message_join:
  assumes "is_type data ''set_username''" "member data ''username'' = Some (JString name)"
    "trim name \<noteq> []"
  shows "on_message w (TextFrame (Some data)) r now s = Inr (set_username w name r now s)"
  using assms is_type_not_null[OF assms(1)] by (simp add: on_message_def)

lemma on_message_signaling:
  assumes "is_signaling data"
  shows "on_message w (TextFrame (Some data)) r now s = Inr (relay w data s)"
proof -
  have "data \<noteq> JNull" using assms by (auto simp: is_signaling_def is_type_def)
  moreover have "\<not> is_type data t" if "t \<in> {''set_username'', ''chat'', ''audio_enabled'',
      ''audio_disabled'', ''video_enabled'', ''video_disabled''}" for t
    using assms that by (auto simp: is_signaling_def dest: is_type_unique)
  ultimately show ?thesis
    using assms by (simp add: on_message_def)
qed

lemma update_in_user_list:
  "(uid, uname) \<in> set (map (\<lambda>user. (userId user, username user))
      (map snd (AList.update uid \<lparr>username = uname, userId = uid, ws = w\<rparr> xs)))"
  by (induction xs) auto

lemma trim_alice: "trim ''alice'' = ''alice''" and trim_bob: "trim '' bob '' = ''bob''"
  by (simp_all add: trim_def js_whitespace_def)

lemma join_msg_simps:
  "is_type (join_msg name) ''set_username''"
  "member (join_msg name) ''username'' = Some (JString name)"
  by (simp_all add: join_msg_def is_type_def)

lemmas ex_hub_simps = ex_hub_def init_hub_def open_clients_def

subsection \<open>The Registry and the joined channels\<close>

text \<open>
  C1: the Registry is meant to hold exactly the channels that completed the join handshake
  and have not disconnected since. The run below is one channel that connects, completes
  the handshake twice and disconnects. Its second \<^verbatim>\<open>set_username\<close> stores a record under
  a new id and leaves the first one; the close handler deletes only the id found in
  \<^verbatim>\<open>clients\<close>, the second. At the end no channel is connected or joined, and the
  Registry still holds the first record, for the closed socket 1.
\<close>

theorem rejoin_leaves_stale_record:
  "(case run [Connection 1,
              Message 1 (TextFrame (Some (join_msg ''alice''))) ''0.abcdefghijk'' 10,
              Message 1 (TextFrame (Some (join_msg ''alice''))) ''0.zyxwvutsrqp'' 20,
              Closed 1 30] init_hub of
      Inl err \<Rightarrow> False
    | Inr (acts, s) \<Rightarrow>
        wss_clients s = [] \<and> readyState s 1 = CLOSED \<and> clients s 1 = None
        \<and> connectedUsers s =
            [(''abcdefghi'', \<lparr>username = ''alice'', userId = ''abcdefghi'', ws = 1\<rparr>)])"
  by (simp add: on_message_def join_msg_def is_type_def trim_alice set_username_def
      generateUserId_def init_hub_def Let_def on_connection_def on_close_def MAX_CLIENTS_def
      sendToClient_def broadcast_def broadcastUserList_def broadcastAudioStates_def
      broadcastVideoStates_def user_list_def)

subsection \<open>Allocation of peer ids\<close>

text \<open>
  C3: the id of a join is meant to be unique among the registered ids, and a generated id
  that is already registered must not replace a record. The helper is commented
  \<^verbatim>\<open>generate unique ID\<close>, but its result is used as it comes. In the run below alice
  joins on socket 1 and bob on socket 2, and the generator returns the same string for both:
  the two channels are registered under one id, and the Registry holds the record of bob in
  the place of the record of alice.
\<close>

theorem colliding_id_overwrites_record:
  "(case run [Connection 1,
              Message 1 (TextFrame (Some (join_msg ''alice''))) ''0.abcdefghijk'' 10,
              Connection 2,
              Message 2 (TextFrame (Some (join_msg ''bob''))) ''0.abcdefghijk'' 20] init_hub of
      Inl err \<Rightarrow> False
    | Inr (acts, s) \<Rightarrow>
        clients s 1 = Some \<lparr>username = ''alice'', userId = ''abcdefghi''\<rparr>
        \<and> clients s 2 = Some \<lparr>username = ''bob'', userId = ''abcdefghi''\<rparr>
        \<and> connectedUsers s =
            [(''abcdefghi'', \<lparr>username = ''bob'', userId = ''abcdefghi'', ws = 2\<rparr>)])"
  by (simp add: on_message_def join_msg_def is_type_def trim_def js_whitespace_def
      set_username_def generateUserId_def init_hub_def Let_def on_connection_def MAX_CLIENTS_def
      sendToClient_def broadcast_def broadcastUserList_def broadcastAudioStates_def
      broadcastVideoStates_def user_list_def)

lemma run_append:
  "run (es @ es') s =
     (case run es s of
        Inl err \<Rightarrow> Inl err
      | Inr (acts, s1) \<Rightarrow>
          (case run es' s1 of
             Inl err \<Rightarrow> Inl err
           | Inr (acts', s2) \<Rightarrow> Inr (acts @ acts', s2)))"
  by (induction es arbitrary: s) (auto split: sum.splits)

lemma crowd_0: "crowd 0 = init_hub"
  by (simp add: crowd_def init_hub_def)

lemma connection_crowd:
  assumes "n < MAX_CLIENTS"
  shows "hub_step (Connection n) (crowd n) =
           Inr ([Send n RequestUsername, Send n (UserList [])], crowd (Suc n))"
proof -
  have "(\<lambda>c. if c < n then OPEN else CONNECTING)(n := OPEN)
          = (\<lambda>c. if c < Suc n then OPEN else CONNECTING)"
    by (auto simp: fun_eq_iff)
  then show ?thesis
    using assms
    by (simp add: crowd_def init_hub_def on_connection_def sendToClient_def user_list_def)
qed

lemma connection_full_crowd:
  "sent (hub_step (Connection MAX_CLIENTS) (crowd MAX_CLIENTS)) = rejection MAX_CLIENTS"
  by (simp add: crowd_def init_hub_def on_connection_def sendToClient_def rejection_def sent_def)

lemma run_connections:
  "n \<le> MAX_CLIENTS \<Longrightarrow> \<exists>acts. run (map Connection [0..<n]) init_hub = Inr (acts, crowd n)"
proof (induction n)
  case 0
  then show ?case by (simp add: crowd_0)
next
  case (Suc n)
  then obtain acts where "run (map Connection [0..<n]) init_hub = Inr (acts, crowd n)"
    by auto
  moreover have "hub_step (Connection n) (crowd n)
      = Inr ([Send n RequestUsername, Send n (UserList [])], crowd (Suc n))"
    using Suc.prems by (intro connection_crowd) simp
  ultimately show ?case
    by (simp add: run_append del: hub_step.simps)
qed

subsection \<open>Admission control\<close>

text \<open>
  Two hundred channels connect and none of them registers. The next connection is refused,
  with a registered participant count of 0.
\<close>

theorem rejected_with_empty_registry_counterexample:
  "sent (hub_step (Connection 200) (final (run (map Connection [0..<200]) init_hub)))
     = rejection 200
   \<and> length (connectedUsers (final (run (map Connection [0..<200]) init_hub))) = 0
   \<and> 0 < MAX_CLIENTS"
proof -
  have "final (run (map Connection [0..<200]) init_hub) = crowd 200"
    using run_connections[of 200] by (auto simp: final_def MAX_CLIENTS_def)
  moreover have "sent (hub_step (Connection 200) (crowd 200)) = rejection 200"
    using connection_full_crowd by (simp add: MAX_CLIENTS_def)
  ultimately show ?thesis
    by (simp add: crowd_def init_hub_def MAX_CLIENTS_def)
qed

text \<open>
  C2, as the hub does it: the ceiling is on the connected sockets, not on the registered
  participants. A new connection is refused exactly when 200 sockets are connected already
  (\<^verbatim>\<open>wss.clients.size\<close>, which counts the new socket, exceeds 200); the refused channel is
  sent the error and then closed; otherwise it is neither. A connection never changes the
  Registry. In particular, with 200 peers registered on 200 distinct connected sockets the
  next connection is refused and the Registry keeps its 200 records.
\<close>

theorem connection_rejected_iff_sockets_reach_ceiling:
  assumes "w \<notin> set (wss_clients s)"
    and "hub_step (Connection w) s = Inr (acts, s')"
  shows "(acts = rejection w \<longleftrightarrow> MAX_CLIENTS \<le> length (wss_clients s))
     \<and> (acts = rejection w \<longrightarrow> readyState s' w = CLOSING)
     \<and> (acts \<noteq> rejection w \<longrightarrow>
           CloseSocket w \<notin> set acts \<and> (\<forall>m. Send w (Error m) \<notin> set acts) \<and> readyState s' w = OPEN)
     \<and> connectedUsers s' = connectedUsers s \<and> clients s' = clients s
     \<and> (length (connectedUsers s) = MAX_CLIENTS
          \<and> distinct (map (\<lambda>(k, user). ws user) (connectedUsers s))
          \<and> (\<forall>(k, user) \<in> set (connectedUsers s). ws user \<in> set (wss_clients s))
        \<longrightarrow> acts = rejection w \<and> length (connectedUsers s') = MAX_CLIENTS)"
proof -
  have core: "(acts = rejection w \<longleftrightarrow> MAX_CLIENTS \<le> length (wss_clients s))
     \<and> (acts = rejection w \<longrightarrow> readyState s' w = CLOSING)
     \<and> (acts \<noteq> rejection w \<longrightarrow>
           CloseSocket w \<notin> set acts \<and> (\<forall>m. Send w (Error m) \<notin> set acts) \<and> readyState s' w = OPEN)
     \<and> connectedUsers s' = connectedUsers s \<and> clients s' = clients s"
    using assms
    by (auto simp: on_connection_def rejection_def sendToClient_def socket_close_def
        split: if_splits)
  have "MAX_CLIENTS \<le> length (wss_clients s)"
    if len: "length (connectedUsers s) = MAX_CLIENTS"
      and dist: "distinct (map (\<lambda>(k, user). ws user) (connectedUsers s))"
      and sub: "\<forall>(k, user) \<in> set (connectedUsers s). ws user \<in> set (wss_clients s)"
  proof -
    let ?cs = "map (\<lambda>(k, user). ws user) (connectedUsers s)"
    have "set ?cs \<subseteq> set (wss_clients s)" using sub by auto
    then have "card (set ?cs) \<le> card (set (wss_clients s))"
      by (simp add: card_mono)
    also have "\<dots> \<le> length (wss_clients s)" by (rule card_length)
    finally show ?thesis using len distinct_card[OF dist] by simp
  qed
  with core show ?thesis by auto
qed

lemma ws_packed: "map (\<lambda>(k, user). ws user) (connectedUsers packed) = [0..<200]"
  by (simp add: packed_def comp_def map_idI)

theorem connection_rejected_iff_sockets_reach_ceiling_witness:
  "200 \<notin> set (wss_clients packed)
   \<and> length (connectedUsers packed) = MAX_CLIENTS
   \<and> distinct (map (\<lambda>(k, user). ws user) (connectedUsers packed))
   \<and> set (map (\<lambda>(k, user). ws user) (connectedUsers packed)) \<subseteq> set (wss_clients packed)
   \<and> sent (hub_step (Connection 200) packed) = rejection 200
   \<and> length (connectedUsers (final (hub_step (Connection 200) packed))) = MAX_CLIENTS"
proof -
  have h1: "200 \<notin> set (wss_clients packed)"
    by (simp add: packed_def crowd_def)
  have h2: "length (connectedUsers packed) = MAX_CLIENTS"
    by (simp add: packed_def MAX_CLIENTS_def)
  have h3: "distinct (map (\<lambda>(k, user). ws user) (connectedUsers packed))"
    by (simp add: ws_packed)
  have h4: "\<forall>(k, user) \<in> set (connectedUsers packed). ws user \<in> set (wss_clients packed)"
    by (auto simp: packed_def crowd_def)
  obtain acts s' where step: "hub_step (Connection 200) packed = Inr (acts, s')"
    by (cases "on_connection 200 (packed\<lparr>wss_clients := wss_clients packed @ [200],
          readyState := (readyState packed)(200 := OPEN)\<rparr>)") (simp add: h1)
  from connection_rejected_iff_sockets_reach_ceiling[OF h1 step] h2 h3 h4
  have "acts = rejection 200 \<and> length (connectedUsers s') = MAX_CLIENTS" by blast
  moreover have "set (map (\<lambda>(k, user). ws user) (connectedUsers packed)) \<subseteq> set (wss_clients packed)"
    by (simp add: ws_packed) (simp add: packed_def crowd_def)
  ultimately show ?thesis using h1 h2 h3 by (simp add: step sent_def final_def del: hub_step.simps)
qed

lemma offer_as_signaling: "is_signaling (offer_as target sender)"
  by (simp add: offer_as_def is_signaling_def is_type_def)

lemmas ex_pair_simps = ex_pair_def ex_hub_def init_hub_def

subsection \<open>Order of the join messages\<close>

text \<open>
  C4: a successful join on an open channel \<open>w\<close> of the server sends, in this order,
  \<^verbatim>\<open>username_accepted\<close> to \<open>w\<close> only, the joined notice to every open channel except
  \<open>w\<close>, and the membership list, which contains the new id, to every open channel, \<open>w\<close>
  among them; what follows are the audio and video state lists. The notice carries no peer
  id, so the first message that gives the new id to a channel other than the joiner is the
  membership list.
\<close>

theorem join_message_order:
  assumes "is_type data ''set_username''"
    and "member data ''username'' = Some (JString name)"
    and "trim name \<noteq> []"
    and "readyState s w = OPEN" and "w \<in> set (wss_clients s)"
  shows "\<exists>s' rest.
     on_message w (TextFrame (Some data)) r now s =
       Inr ([Send w (UsernameAccepted (trim name) (generateUserId r))]
            @ map (\<lambda>c. Send c (System (trim name @ '' joined the chat.'') now))
                (filter (\<lambda>c. c \<noteq> w) (open_clients s))
            @ map (\<lambda>c. Send c (UserList (user_list s'))) (open_clients s)
            @ rest, s')
     \<and> w \<in> set (open_clients s)
     \<and> (generateUserId r, trim name) \<in> set (user_list s')
     \<and> msg_ids (System (trim name @ '' joined the chat.'') now) = []
     \<and> (\<forall>a \<in> set rest. \<exists>c states. a = Send c (AudioStates states) \<or> a = Send c (VideoStates states))"
proof -
  let ?s1 = "snd (set_username w name r now s)"
  have "w \<in> set (open_clients s)"
    using assms(4,5) by (simp add: open_clients_def)
  moreover have "(generateUserId r, trim name) \<in> set (user_list ?s1)"
    by (simp add: set_username_def Let_def user_list_def update_in_user_list del: set_map map_map)
  moreover have "set_username w name r now s =
       ([Send w (UsernameAccepted (trim name) (generateUserId r))]
            @ map (\<lambda>c. Send c (System (trim name @ '' joined the chat.'') now))
                (filter (\<lambda>c. c \<noteq> w) (open_clients s))
            @ map (\<lambda>c. Send c (UserList (user_list ?s1))) (open_clients s)
            @ (broadcastAudioStates ?s1 @ broadcastVideoStates ?s1), ?s1)"
    using assms(4)
    by (simp add: set_username_def Let_def sendToClient_def broadcast_except broadcast_all
        broadcastUserList_def)
  moreover have "\<forall>a \<in> set (broadcastAudioStates ?s1 @ broadcastVideoStates ?s1).
      \<exists>c states. a = Send c (AudioStates states) \<or> a = Send c (VideoStates states)"
    by (auto simp: broadcastAudioStates_def broadcastVideoStates_def broadcast_all)
  ultimately show ?thesis
    unfolding on_message_join[OF assms(1-3)]
    by (intro exI[of _ ?s1] exI[of _ "broadcastAudioStates ?s1 @ broadcastVideoStates ?s1"]) simp
qed

theorem join_message_order_witness:
  "readyState ex_hub 2 = OPEN \<and> 2 \<in> set (wss_clients ex_hub) \<and> trim '' bob '' \<noteq> []
   \<and> take 4 (sent (on_message 2 (TextFrame (Some (join_msg '' bob ''))) ''0.zyxwvutsrqp'' 5 ex_hub))
      = [Send 2 (UsernameAccepted ''bob'' ''zyxwvutsr''),
         Send 1 (System ''bob joined the chat.'' 5),
         Send 1 (UserList [(''abcdefghi'', ''alice''), (''zyxwvutsr'', ''bob'')]),
         Send 2 (UserList [(''abcdefghi'', ''alice''), (''zyxwvutsr'', ''bob'')])]"
proof -
  have h4: "readyState ex_hub 2 = OPEN" and h5: "2 \<in> set (wss_clients ex_hub)"
    by (simp_all add: ex_hub_def init_hub_def)
  have tr: "trim '' bob '' \<noteq> []" by (simp add: trim_bob)
  have opens: "open_clients ex_hub = [1, 2]"
    by (simp add: ex_hub_simps)
  have reg: "user_list (snd (set_username 2 '' bob '' ''0.zyxwvutsrqp'' 5 ex_hub))
      = [(''abcdefghi'', ''alice''), (''zyxwvutsr'', ''bob'')]"
    by (simp add: set_username_def Let_def user_list_def trim_bob generateUserId_def
        ex_hub_def init_hub_def)
  from join_message_order[OF join_msg_simps tr h4 h5, of "''0.zyxwvutsrqp''" 5]
  obtain s' rest where
    eq: "on_message 2 (TextFrame (Some (join_msg '' bob ''))) ''0.zyxwvutsrqp'' 5 ex_hub =
       Inr ([Send 2 (UsernameAccepted (trim '' bob '') (generateUserId ''0.zyxwvutsrqp''))]
            @ map (\<lambda>c. Send c (System (trim '' bob '' @ '' joined the chat.'') 5))
                (filter (\<lambda>c. c \<noteq> 2) (open_clients ex_hub))
            @ map (\<lambda>c. Send c (UserList (user_list s'))) (open_clients ex_hub)
            @ rest, s')"
    by blast
  then have "s' = snd (set_username 2 '' bob '' ''0.zyxwvutsrqp'' 5 ex_hub)"
    by (simp add: on_message_join[OF join_msg_simps tr])
  then have "user_list s' = [(''abcdefghi'', ''alice''), (''zyxwvutsr'', ''bob'')]"
    using reg by simp
  then show ?thesis
    using h4 h5 tr by (simp add: eq sent_def opens trim_bob generateUserId_def)
qed

subsection \<open>The relay\<close>

text \<open>
  C7: whatever a forwarded signaling message contained when it arrived, its
  \<^verbatim>\<open>senderUserId\<close> and \<^verbatim>\<open>senderUsername\<close> are the identity registered in
  \<^verbatim>\<open>clients\<close> for the channel it came from; so two requests of one channel in one state
  are forwarded with the same sender identity, whatever sender fields they carried.
\<close>

theorem relay_sender_is_registered_identity:
  assumes "is_signaling d1" and "is_signaling d2"
    and "on_message w (TextFrame (Some d1)) r1 n1 s = Inr (acts1, s1)"
    and "on_message w (TextFrame (Some d2)) r2 n2 s = Inr (acts2, s2)"
    and "Send t1 (Signal f1) \<in> set acts1" and "Send t2 (Signal f2) \<in> set acts2"
  shows "\<exists>info. clients s w = Some info
           \<and> map_of f1 ''senderUserId'' = Some (JString (userId info))
           \<and> map_of f1 ''senderUsername'' = Some (JString (username info))
           \<and> map_of f2 ''senderUserId'' = Some (JString (userId info))
           \<and> map_of f2 ''senderUsername'' = Some (JString (username info))"
proof -
  have r1: "relay w d1 s = (acts1, s1)" and r2: "relay w d2 s = (acts2, s2)"
    using assms(1-4) by (simp_all add: on_message_signaling)
  have fwd: "\<exists>info. clients s w = Some info
           \<and> map_of f ''senderUserId'' = Some (JString (userId info))
           \<and> map_of f ''senderUsername'' = Some (JString (username info))"
    if "relay w d s = (acts, s')" "Send t (Signal f) \<in> set acts" for d acts s' t f
    using that
    by (auto simp: relay_def update_conv' split: option.splits if_splits)
  from fwd[OF r1 assms(5)] fwd[OF r2 assms(6)] show ?thesis by auto
qed

lemma relay_spoofed:
  "on_message 1 (TextFrame (Some (offer_as ''carolcaro'' sender))) [] 0 ex_pair =
     Inr ([Send 4 (Signal [(''type'', JString ''webrtc_offer''),
             (''targetUserId'', JString ''carolcaro''), (''senderUserId'', JString ''abcdefghi''),
             (''offer'', JString ''sdp''), (''senderUsername'', JString ''alice'')])], ex_pair)"
  unfolding on_message_signaling[OF offer_as_signaling]
  by (simp add: relay_def get_user_def offer_as_def ex_pair_simps)

theorem relay_sender_is_registered_identity_witness:
  "is_signaling (offer_as ''carolcaro'' ''carolcaro'')
   \<and> is_signaling (offer_as ''carolcaro'' ''mallory'')
   \<and> Send 4 (Signal [(''type'', JString ''webrtc_offer''),
             (''targetUserId'', JString ''carolcaro''), (''senderUserId'', JString ''abcdefghi''),
             (''offer'', JString ''sdp''), (''senderUsername'', JString ''alice'')])
        \<in> set (sent (on_message 1 (TextFrame (Some (offer_as ''carolcaro'' ''carolcaro''))) [] 0 ex_pair))
   \<and> sent (on_message 1 (TextFrame (Some (offer_as ''carolcaro'' ''mallory''))) [] 0 ex_pair)
      = sent (on_message 1 (TextFrame (Some (offer_as ''carolcaro'' ''carolcaro''))) [] 0 ex_pair)
   \<and> clients ex_pair 1 = Some \<lparr>username = ''alice'', userId = ''abcdefghi''\<rparr>"
proof -
  let ?f = "[(''type'', JString ''webrtc_offer''),
             (''targetUserId'', JString ''carolcaro''), (''senderUserId'', JString ''abcdefghi''),
             (''offer'', JString ''sdp''), (''senderUsername'', JString ''alice'')]"
  have m: "Send 4 (Signal ?f) \<in> set [Send 4 (Signal ?f)]" by simp
  from relay_sender_is_registered_identity[OF offer_as_signaling offer_as_signaling
      relay_spoofed[of "''carolcaro''"] relay_spoofed[of "''mallory''"] m m]
  obtain info where "clients ex_pair 1 = Some info"
    "JString ''abcdefghi'' = JString (userId info)" "JString ''alice'' = JString (username info)"
    by auto
  then have "clients ex_pair 1 = Some \<lparr>username = ''alice'', userId = ''abcdefghi''\<rparr>"
    by (cases info) simp
  then show ?thesis
    unfolding relay_spoofed sent_def by (simp add: offer_as_signaling)
qed

text \<open>
  C8: a signaling message whose \<^verbatim>\<open>targetUserId\<close> is not a key of the Registry causes no
  action at all, no message to any channel and no error to the sender, and leaves the state
  as it was.
\<close>

theorem relay_absent_target_dropped:
  assumes "is_signaling data"
      and "\<forall>t. member data ''targetUserId'' = Some (JString t) \<longrightarrow> map_of (connectedUsers s) t = None"
  shows "on_message w (TextFrame (Some data)) r now s = Inr ([], s)"
proof -
  have "get_user s (member data ''targetUserId'') = None"
    using assms(2) by (auto simp: get_user_def split: option.splits json.splits)
  then have "relay w data s = ([], s)"
    by (simp add: relay_def)
  then show ?thesis
    using assms(1) by (simp add: on_message_signaling)
qed

theorem relay_absent_target_dropped_witness:
  "is_signaling (offer_as ''nobodyxyz'' ''abcdefghi'')
   \<and> map_of (connectedUsers ex_pair) ''nobodyxyz'' = None
   \<and> on_message 1 (TextFrame (Some (offer_as ''nobodyxyz'' ''abcdefghi''))) [] 0 ex_pair
       = Inr ([], ex_pair)"
proof -
  have absent: "map_of (connectedUsers ex_pair) ''nobodyxyz'' = None"
    by (simp add: ex_pair_simps)
  have "\<forall>t. member (offer_as ''nobodyxyz'' ''abcdefghi'') ''targetUserId'' = Some (JString t)
          \<longrightarrow> map_of (connectedUsers ex_pair) t = None"
    using absent by (simp add: offer_as_def)
  from relay_absent_target_dropped[OF offer_as_signaling this] absent
  show ?thesis by (simp add: offer_as_signaling)
qed

subsection \<open>Departure\<close>

text \<open>
  C9: when a registered channel leaves, its Peer record is meant to be removed and the
  remaining channels are meant to get the depart notice and then the refreshed lists. In
  the run below socket 2 is connected and socket 1 completes the join twice. When socket 1
  then closes, socket 2 is sent the notice, the membership list, the audio states and the
  video states in this order; but the close handler deletes only the id found in
  \<^verbatim>\<open>clients\<close>, so the membership list it sends still names the departed channel, and
  the first record of that channel stays in the Registry.
\<close>

theorem leave_after_rejoin_keeps_record:
  "(case run [Connection 1, Connection 2,
              Message 1 (TextFrame (Some (join_msg ''alice''))) ''0.abcdefghijk'' 10,
              Message 1 (TextFrame (Some (join_msg ''alice''))) ''0.zyxwvutsrqp'' 20] init_hub of
      Inl err \<Rightarrow> False
    | Inr (acts, s) \<Rightarrow>
        clients s 1 = Some \<lparr>username = ''alice'', userId = ''zyxwvutsr''\<rparr>
        \<and> (case hub_step (Closed 1 30) s of
              Inl err \<Rightarrow> False
            | Inr (acts', s') \<Rightarrow>
                acts' = [Send 2 (System ''alice left the chat.'' 30),
                         Send 2 (UserList [(''abcdefghi'', ''alice'')]),
                         Send 2 (AudioStates []), Send 2 (VideoStates [])]
                \<and> connectedUsers s' =
                    [(''abcdefghi'', \<lparr>username = ''alice'', userId = ''abcdefghi'', ws = 1\<rparr>)]))"
  by (simp add: on_message_def join_msg_def is_type_def trim_alice set_username_def
      generateUserId_def init_hub_def Let_def on_connection_def on_close_def MAX_CLIENTS_def
      sendToClient_def broadcast_def broadcastUserList_def broadcastAudioStates_def
      broadcastVideoStates_def user_list_def)

subsection \<open>Chat before the join\<close>

text \<open>
  C10: a chat message from a channel that has no entry in \<^verbatim>\<open>clients\<close> is not rejected:
  every open channel is sent a chat message with the username \<^verbatim>\<open>Anonymous\<close>, the text
  and the time stamp of the hub, and the state does not change.
\<close>

theorem chat_before_join_is_anonymous:
  assumes "clients s w = None" and "is_type data ''chat''"
  shows "on_message w (TextFrame (Some data)) r now s =
           Inr (map (\<lambda>c. Send c (Chat ''Anonymous'' (text_or_empty (member data ''text'')) now))
                  (open_clients s), s)"
  using assms
  by (auto simp: on_message_def is_type_def chat_def broadcast_all)

theorem chat_before_join_is_anonymous_witness:
  "clients ex_hub 2 = None \<and> is_type (chat_msg ''hi'') ''chat''
   \<and> on_message 2 (TextFrame (Some (chat_msg ''hi''))) [] 7 ex_hub
     = Inr ([Send 1 (Chat ''Anonymous'' (JString ''hi'') 7),
             Send 2 (Chat ''Anonymous'' (JString ''hi'') 7)], ex_hub)"
proof -
  have h1: "clients ex_hub 2 = None" by (simp add: ex_hub_def init_hub_def)
  have h2: "is_type (chat_msg ''hi'') ''chat''" by (simp add: chat_msg_def is_type_def)
  from chat_before_join_is_anonymous[OF h1 h2, of "[]" 7] h1 h2
  show ?thesis
    by (simp add: ex_hub_simps chat_msg_def text_or_empty_def)
qed

section \<open>Properties of the mesh client\<close>

subsection \<open>Reconnection\<close>

lemma handleConnectionFailure_timeouts:
  "filter is_timeout (fst (handleConnectionFailure uid uname s))
     = [SetTimeout 1000 (Reconnect uid uname)]"
  by (simp add: handleConnectionFailure_def split: option.splits)

lemma handleConnectionFailure_closes:
  assumes "map_of (peersRef s) uid = Some p"
  shows "ClosePeerConnection (connection p) \<in> set (fst (handleConnectionFailure uid uname s))"
    and "audioElement p
           \<Longrightarrow> RemoveAudioElement (connection p) \<in> set (fst (handleConnectionFailure uid uname s))"
  using assms by (simp_all add: handleConnectionFailure_def)

lemma handleConnectionFailure_peers:
  "map_of (peersRef (snd (handleConnectionFailure uid uname s))) k
     = (if k = uid then None else map_of (peersRef s) k)"
  by (simp add: handleConnectionFailure_def delete_conv' split: option.splits)

lemma handleConnectionFailure_retry:
  "SetTimeout 1000 (Reconnect uid uname) \<in> set (fst (handleConnectionFailure uid uname s))"
  by (simp add: handleConnectionFailure_def split: option.splits)

lemma reconnect_creates:
  "\<exists>rest. fst (reconnect (Some u) uname s) = NewPeerConnection (nextConnection s) # rest"
  by (simp add: reconnect_def createPeerConnection_def initiateCall_def Let_def
      handleConnectionFailure_def split: option.splits prod.splits)

lemma reconnect_stores:
  "map_of (peersRef (snd (reconnect (Some u) uname s))) (Some u)
     = Some \<lparr>connection = nextConnection s, peerUserId = Some u, peerUsername = uname,
             audioElement = False\<rparr>"
  by (simp add: reconnect_def createPeerConnection_def initiateCall_def Let_def
      handleConnectionFailure_def update_conv' delete_conv' split: option.splits prod.splits)

lemma count_list_pos: "x \<in> set xs \<Longrightarrow> 0 < count_list xs x"
  by (induction xs) auto

lemma count_list_app: "count_list (xs @ ys) x = count_list xs x + count_list ys x"
  by (induction xs) auto

lemma failing_link_count:
  "n \<le> count_list (fst (client_run (failing_link n uid uname) s))
          (SetTimeout 1000 (Reconnect (Some uid) (Some uname)))"
proof (induction n arbitrary: s)
  case 0
  then show ?case by simp
next
  case (Suc n)
  obtain e1 s1 where h: "handleConnectionFailure (Some uid) (Some uname) s = (e1, s1)"
    by (cases "handleConnectionFailure (Some uid) (Some uname) s")
  obtain e2 s2 where r: "reconnect (Some uid) (Some uname) s1 = (e2, s2)"
    by (cases "reconnect (Some uid) (Some uname) s1")
  obtain e3 s3 where f: "client_run (failing_link n uid uname) s2 = (e3, s3)"
    by (cases "client_run (failing_link n uid uname) s2")
  have "0 < count_list e1 (SetTimeout 1000 (Reconnect (Some uid) (Some uname)))"
    using handleConnectionFailure_retry[of "Some uid" "Some uname" s] h
    by (simp add: count_list_pos)
  moreover have "n \<le> count_list e3 (SetTimeout 1000 (Reconnect (Some uid) (Some uname)))"
    using Suc.IH[of s2] f by simp
  ultimately show ?case
    by (simp add: h r f count_list_app)
qed

text \<open>
  C6, as the client does it: reconnection is not bounded. In every state, a failure of the
  Link to a remote id closes the connection of the Link held for that id, removes its audio
  element if it has one, forgets that Link and no other, and schedules exactly one timer:
  the retry for the same remote id, after the fixed delay of 1000 ms. There is no retry
  count, no backoff, no terminal state and no persistent-failure event. The retry, when it
  fires, creates a new connection and stores it as the Link of the remote id, which can fail
  again; a Link that fails \<open>n\<close> times in a row gets at least \<open>n\<close> retries, for every \<open>n\<close>.
\<close>

theorem every_failure_closes_and_retries:
  "filter is_timeout (fst (handleConnectionFailure uid uname s))
     = [SetTimeout 1000 (Reconnect uid uname)]
   \<and> (\<forall>p. map_of (peersRef s) uid = Some p \<longrightarrow>
         ClosePeerConnection (connection p) \<in> set (fst (handleConnectionFailure uid uname s))
         \<and> (audioElement p \<longrightarrow>
              RemoveAudioElement (connection p) \<in> set (fst (handleConnectionFailure uid uname s))))
   \<and> (\<forall>k. map_of (peersRef (snd (handleConnectionFailure uid uname s))) k
            = (if k = uid then None else map_of (peersRef s) k))
   \<and> (\<exists>rest. fst (reconnect (Some u) nm s) = NewPeerConnection (nextConnection s) # rest)
   \<and> map_of (peersRef (snd (reconnect (Some u) nm s))) (Some u)
        = Some \<lparr>connection = nextConnection s, peerUserId = Some u, peerUsername = nm,
                audioElement = False\<rparr>
   \<and> n \<le> count_list (fst (client_run (failing_link n v vn) s'))
            (SetTimeout 1000 (Reconnect (Some v) (Some vn)))"
  using handleConnectionFailure_closes[of s uid _ uname] reconnect_creates[of u nm s]
  by (simp add: handleConnectionFailure_timeouts handleConnectionFailure_peers
      reconnect_stores failing_link_count)

lemma six: "(6::nat) = Suc (Suc (Suc (Suc (Suc (Suc 0)))))"
  and five: "(5::nat) = Suc (Suc (Suc (Suc (Suc 0))))"
  by simp_all

text \<open>
  The Link of alice to bob has failed and been retried five times. Its sixth failure closes
  the connection and schedules the retry again, after the same 1000 ms; six failures have
  scheduled six retries.
\<close>

theorem sixth_failure_still_retries_counterexample:
  "fst (client_step (ConnectionFailed ''zyxwvutsr'' ''bob'')
          (snd (client_run (failing_link 5 ''zyxwvutsr'' ''bob'') alice_linked)))
     = [ClosePeerConnection 5, SetTimeout 1000 (Reconnect (Some ''zyxwvutsr'') (Some ''bob''))]
   \<and> count_list (fst (client_run (failing_link 6 ''zyxwvutsr'' ''bob'') alice_linked))
         (SetTimeout 1000 (Reconnect (Some ''zyxwvutsr'') (Some ''bob''))) = 6"
  unfolding six five
  by (simp add: handleConnectionFailure_def reconnect_def createPeerConnection_def
    initiateCall_def alice_linked_def alice_joined_def init_client_def link_to_bob_def Let_def)

theorem every_failure_closes_and_retries_witness:
  "map_of (peersRef alice_linked) (Some ''zyxwvutsr'') = Some link_to_bob
   \<and> fst (handleConnectionFailure (Some ''zyxwvutsr'') (Some ''bob'') alice_linked)
     = [ClosePeerConnection 0, SetTimeout 1000 (Reconnect (Some ''zyxwvutsr'') (Some ''bob''))]
   \<and> peersRef (snd (handleConnectionFailure (Some ''zyxwvutsr'') (Some ''bob'') alice_linked)) = []
   \<and> map_of (peersRef (snd (reconnect (Some ''zyxwvutsr'') (Some ''bob'') alice_joined)))
        (Some ''zyxwvutsr'') = Some link_to_bob"
proof -
  have held: "map_of (peersRef alice_linked) (Some ''zyxwvutsr'') = Some link_to_bob"
    by (simp add: alice_linked_def)
  have next0: "nextConnection alice_joined = 0"
    by (simp add: alice_joined_def init_client_def)
  from every_failure_closes_and_retries[of "Some ''zyxwvutsr''" "Some ''bob''" alice_linked
      "''zyxwvutsr''" "Some ''bob''" 0 "''zyxwvutsr''" "''bob''" alice_linked]
  have "filter is_timeout (fst (handleConnectionFailure (Some ''zyxwvutsr'') (Some ''bob'') alice_linked))
     = [SetTimeout 1000 (Reconnect (Some ''zyxwvutsr'') (Some ''bob''))]"
    by blast
  moreover from every_failure_closes_and_retries[of "Some ''zyxwvutsr''" "Some ''bob''" alice_joined
      "''zyxwvutsr''" "Some ''bob''" 0 "''zyxwvutsr''" "''bob''" alice_joined]
  have "map_of (peersRef (snd (reconnect (Some ''zyxwvutsr'') (Some ''bob'') alice_joined)))
        (Some ''zyxwvutsr'') = Some link_to_bob"
    by (simp add: next0 link_to_bob_def)
  ultimately show ?thesis
    using held
    by (simp add: handleConnectionFailure_def alice_linked_def link_to_bob_def)
qed

subsection \<open>Who initiates\<close>

lemma createPeerConnection_result:
  assumes "createPeerConnection uid uname s = (h, effs, s1)"
  shows "userIdRef s1 = userIdRef s"
    and "peersRef s1 = AList.update uid \<lparr>connection = nextConnection s, peerUserId = uid,
            peerUsername = uname, audioElement = False\<rparr> (peersRef s)"
    and "SetTimeout 100 t \<notin> set effs"
    and "userIdRef s = [] \<Longrightarrow> \<forall>e \<in> set effs. is_setup e"
  using assms
  by (auto simp: createPeerConnection_def Let_def initiateCall_def
      split: if_splits option.splits)

lemma createPeerConnections_Cons_cases:
  obtains (skip) "\<not> (uid \<noteq> userIdRef s \<and> map_of (peersRef s) (Some uid) = None)"
      "createPeerConnections ((uid, uname) # users) s = createPeerConnections users s"
  | (new) h effs s1 effs' s2 where
      "uid \<noteq> userIdRef s" "map_of (peersRef s) (Some uid) = None"
      "createPeerConnection (Some uid) (Some uname) s = (h, effs, s1)"
      "createPeerConnections users s1 = (effs', s2)"
      "createPeerConnections ((uid, uname) # users) s =
         (effs @ (if userIdRef s \<noteq> [] then [SetTimeout 100 (InitiateCallTo uid)] else []) @ effs',
          s2)"
proof (cases "uid \<noteq> userIdRef s \<and> map_of (peersRef s) (Some uid) = None")
  case False
  then show ?thesis by (intro skip) auto
next
  case True
  obtain h effs s1 where c: "createPeerConnection (Some uid) (Some uname) s = (h, effs, s1)"
    by (cases "createPeerConnection (Some uid) (Some uname) s")
  obtain effs' s2 where r: "createPeerConnections users s1 = (effs', s2)"
    by (cases "createPeerConnections users s1")
  show ?thesis
    using True createPeerConnection_result(1)[OF c]
    by (intro new[OF _ _ c r]) (simp_all add: c r)
qed

lemma createPeerConnections_userIdRef:
  "userIdRef (snd (createPeerConnections users s)) = userIdRef s"
proof (induction users arbitrary: s)
  case Nil
  then show ?case by simp
next
  case (Cons u users)
  obtain uid uname where u: "u = (uid, uname)" by (cases u)
  show ?case
  proof (cases rule: createPeerConnections_Cons_cases[of uid s uname users])
    case skip
    then show ?thesis using Cons.IH[of s] by (simp add: u)
  next
    case (new h effs s1 effs' s2)
    then show ?thesis
      using Cons.IH[of s1] createPeerConnection_result(1)[OF new(3)] by (simp add: u)
  qed
qed

lemma createPeerConnections_links:
  "map_of (peersRef (snd (createPeerConnections users s))) (Some b) \<noteq> None
     \<longleftrightarrow> map_of (peersRef s) (Some b) \<noteq> None \<or> (b \<in> fst ` set users \<and> b \<noteq> userIdRef s)"
proof (induction users arbitrary: s)
  case Nil
  then show ?case by simp
next
  case (Cons u users)
  obtain uid uname where u: "u = (uid, uname)" by (cases u)
  show ?case
  proof (cases rule: createPeerConnections_Cons_cases[of uid s uname users])
    case skip
    then show ?thesis using Cons.IH[of s] by (auto simp: u)
  next
    case (new h effs s1 effs' s2)
    have "map_of (peersRef s1) (Some b) \<noteq> None
            \<longleftrightarrow> map_of (peersRef s) (Some b) \<noteq> None \<or> b = uid"
      by (simp add: createPeerConnection_result(2)[OF new(3)] update_conv')
    then show ?thesis
      using Cons.IH[of s1] new(1,4,5) createPeerConnection_result(1)[OF new(3)]
      by (auto simp: u)
  qed
qed

lemma createPeerConnections_distinct:
  "distinct (map fst (peersRef s))
     \<Longrightarrow> distinct (map fst (peersRef (snd (createPeerConnections users s))))"
proof (induction users arbitrary: s)
  case Nil
  then show ?case by simp
next
  case (Cons u users)
  obtain uid uname where u: "u = (uid, uname)" by (cases u)
  show ?case
  proof (cases rule: createPeerConnections_Cons_cases[of uid s uname users])
    case skip
    then show ?thesis using Cons.IH[OF Cons.prems] by (simp add: u)
  next
    case (new h effs s1 effs' s2)
    have "distinct (map fst (peersRef s1))"
      using Cons.prems by (simp add: createPeerConnection_result(2)[OF new(3)] distinct_update)
    from Cons.IH[OF this] show ?thesis
      using new(4,5) by (simp add: u)
  qed
qed

lemma createPeerConnections_no_id:
  "userIdRef s = [] \<Longrightarrow> \<forall>e \<in> set (fst (createPeerConnections users s)). is_setup e"
proof (induction users arbitrary: s)
  case Nil
  then show ?case by simp
next
  case (Cons u users)
  obtain uid uname where u: "u = (uid, uname)" by (cases u)
  show ?case
  proof (cases rule: createPeerConnections_Cons_cases[of uid s uname users])
    case skip
    then show ?thesis using Cons.IH[OF Cons.prems] by (simp add: u)
  next
    case (new h effs s1 effs' s2)
    have "userIdRef s1 = []"
      using Cons.prems createPeerConnection_result(1)[OF new(3)] by simp
    from Cons.IH[OF this] show ?thesis
      using new(4,5) createPeerConnection_result(4)[OF new(3) Cons.prems] Cons.prems
      by (auto simp: u)
  qed
qed

lemma createPeerConnections_schedules:
  "SetTimeout 100 (InitiateCallTo b) \<in> set (fst (createPeerConnections users s))
     \<longleftrightarrow> b \<in> fst ` set users \<and> b \<noteq> userIdRef s \<and> userIdRef s \<noteq> []
          \<and> map_of (peersRef s) (Some b) = None"
proof (induction users arbitrary: s)
  case Nil
  then show ?case by simp
next
  case (Cons u users)
  obtain uid uname where u: "u = (uid, uname)" by (cases u)
  show ?case
  proof (cases rule: createPeerConnections_Cons_cases[of uid s uname users])
    case skip
    then show ?thesis using Cons.IH[of s] by (auto simp: u)
  next
    case (new h effs s1 effs' s2)
    have id1: "userIdRef s1 = userIdRef s"
      by (rule createPeerConnection_result(1)[OF new(3)])
    have peers1: "map_of (peersRef s1) (Some b) = None
            \<longleftrightarrow> map_of (peersRef s) (Some b) = None \<and> b \<noteq> uid"
      by (simp add: createPeerConnection_result(2)[OF new(3)] update_conv')
    have "SetTimeout 100 (InitiateCallTo b) \<notin> set effs"
      by (rule createPeerConnection_result(3)[OF new(3)])
    then show ?thesis
      using Cons.IH[of s1] new(1,2,4,5) id1 peers1
      by (auto simp: u)
  qed
qed

text \<open>
  C5, as the client does it: who offers is not decided from the pair of ids. A participant
  that processes a membership list schedules a call to a peer exactly when the list names
  the peer, the peer is not itself, its own id is set and it holds no Link to the peer; a
  participant whose id is not set only builds connections. After the list is processed it
  holds a Link to a peer exactly when it held one before or the list names the peer, other
  than itself, and it never holds two Links for one id. When the call fires and the Link is
  held, the connection timeout is set and an offer is created; the offer is sent once it is
  set as local description and the socket is open. So of two peers that discover each
  other, each side that has its id when it first processes a list naming the other
  initiates: one side or both, depending on when the id arrives.
\<close>

theorem offer_scheduled_iff_id_set_and_no_link:
  "(SetTimeout 100 (InitiateCallTo b) \<in> set (fst (createPeerConnections users s))
      \<longleftrightarrow> b \<in> fst ` set users \<and> b \<noteq> userIdRef s \<and> userIdRef s \<noteq> []
           \<and> map_of (peersRef s) (Some b) = None)
   \<and> (userIdRef s = [] \<longrightarrow> (\<forall>e \<in> set (fst (createPeerConnections users s)). is_setup e))
   \<and> (map_of (peersRef (snd (createPeerConnections users s))) (Some b) \<noteq> None
        \<longleftrightarrow> map_of (peersRef s) (Some b) \<noteq> None \<or> (b \<in> fst ` set users \<and> b \<noteq> userIdRef s))
   \<and> (distinct (map fst (peersRef s))
        \<longrightarrow> distinct (map fst (peersRef (snd (createPeerConnections users s)))))
   \<and> (\<forall>p. map_of (peersRef s) (Some b) = Some p \<longrightarrow>
         fire (InitiateCallTo b) c s
           = Inr ([SetTimeout 10000 (ConnectionTimeout (PeerObject p)), CreateOffer p], s))
   \<and> (wsOpen s \<longrightarrow> SendOffer (peerUserId p') \<in> set (fst (description_set p' True s)))"
  using createPeerConnections_schedules[of b users s] createPeerConnections_no_id[of s users]
    createPeerConnections_links[of users s b] createPeerConnections_distinct[of s users]
  by (simp add: initiateCall_def description_set_def)

lemmas client_eval = room_a_def room_ab_def link_to_bob_def link_to_alice_def init_client_def
  alice_joined_def alice_linked_def createPeerConnection_def initiateCall_def offer_created_def
  description_set_def Let_def

text \<open>
  The messages of the hub in two joins, alice first: the later joiner is sent a list naming
  the earlier one when it connects, before it has an id.
\<close>

lemma hub_inboxes_of_two_joins:
  "(case run two_joins init_hub of
      Inl err \<Rightarrow> False
    | Inr (acts, s) \<Rightarrow>
        inbox 1 acts =
          [RequestUsername, UserList [], UsernameAccepted ''alice'' ''abcdefghi'',
           UserList room_a, AudioStates [], VideoStates [],
           System ''bob joined the chat.'' 20, UserList room_ab, AudioStates [], VideoStates []]
        \<and> inbox 2 acts =
          [RequestUsername, UserList room_a, UsernameAccepted ''bob'' ''zyxwvutsr'',
           UserList room_ab, AudioStates [], VideoStates []])"
  by (simp add: two_joins_def room_a_def room_ab_def on_message_def join_msg_def is_type_def
      trim_def js_whitespace_def set_username_def generateUserId_def init_hub_def Let_def
      on_connection_def MAX_CLIENTS_def sendToClient_def broadcast_def broadcastUserList_def
      broadcastAudioStates_def broadcastVideoStates_def user_list_def)

text \<open>
  When bob joins after the timer of that first list has fired, bob holds the Link to alice
  before having an id, and never schedules a call: only alice offers.
\<close>

lemma bob_slow_never_offers:
  "fst (client_run bob_slow_events init_client)
     = [SetTimeout 100 (CreateConnections room_a), NewPeerConnection 0,
        SetTimeout 100 (CreateConnections room_ab)]"
  by (simp add: bob_slow_events_def client_eval)

text \<open>
  When bob joins within the 100 ms before that timer fires, the same messages in the same
  order make both sides offer: alice sends an offer to bob, and bob sends an offer to alice.
\<close>

theorem both_sides_offer_counterexample:
  "fst (client_run alice_events init_client)
     = [SetTimeout 100 (CreateConnections []), SetTimeout 100 (CreateConnections room_a),
        SetTimeout 100 (CreateConnections room_ab),
        NewPeerConnection 0, SetTimeout 100 (InitiateCallTo ''zyxwvutsr''),
        SetTimeout 10000 (ConnectionTimeout (PeerObject link_to_bob)), CreateOffer link_to_bob,
        SetLocalDescription link_to_bob, SendOffer (Some ''zyxwvutsr''),
        ClearTimeout (ConnectionTimeout (PeerObject link_to_bob))]
   \<and> fst (client_run bob_fast_events init_client)
     = [SetTimeout 100 (CreateConnections room_a), SetTimeout 100 (CreateConnections room_ab),
        NewPeerConnection 0, SetTimeout 100 (InitiateCallTo ''abcdefghi''),
        SetTimeout 10000 (ConnectionTimeout (PeerObject link_to_alice)), CreateOffer link_to_alice,
        SetLocalDescription link_to_alice, SendOffer (Some ''abcdefghi''),
        ClearTimeout (ConnectionTimeout (PeerObject link_to_alice))]"
  by (simp add: alice_events_def bob_fast_events_def client_eval)

theorem offer_scheduled_iff_id_set_and_no_link_witness:
  "SetTimeout 100 (InitiateCallTo ''zyxwvutsr'') \<in> set (fst (createPeerConnections room_ab alice_joined))
   \<and> SetTimeout 100 (InitiateCallTo ''abcdefghi'') \<notin> set (fst (createPeerConnections room_a init_client))
   \<and> fst (createPeerConnections room_a init_client) = [NewPeerConnection 0]
   \<and> map_of (peersRef (snd (createPeerConnections room_ab alice_joined))) (Some ''zyxwvutsr'')
        = Some link_to_bob
   \<and> fire (InitiateCallTo ''zyxwvutsr'') False alice_linked
        = Inr ([SetTimeout 10000 (ConnectionTimeout (PeerObject link_to_bob)),
                CreateOffer link_to_bob], alice_linked)"
proof -
  have a: "''zyxwvutsr'' \<in> fst ` set room_ab" "''zyxwvutsr'' \<noteq> userIdRef alice_joined"
    "userIdRef alice_joined \<noteq> []" "map_of (peersRef alice_joined) (Some ''zyxwvutsr'') = None"
    by (simp_all add: room_ab_def alice_joined_def init_client_def)
  have b: "userIdRef init_client = []"
    by (simp add: init_client_def)
  have held: "map_of (peersRef alice_linked) (Some ''zyxwvutsr'') = Some link_to_bob"
    by (simp add: alice_linked_def)
  from offer_scheduled_iff_id_set_and_no_link[of "''zyxwvutsr''" room_ab alice_joined False
      link_to_bob] a
  have 1: "SetTimeout 100 (InitiateCallTo ''zyxwvutsr'')
             \<in> set (fst (createPeerConnections room_ab alice_joined))"
    by blast
  from offer_scheduled_iff_id_set_and_no_link[of "''abcdefghi''" room_a init_client False
      link_to_alice] b
  have 2: "SetTimeout 100 (InitiateCallTo ''abcdefghi'')
             \<notin> set (fst (createPeerConnections room_a init_client))"
    by blast
  from offer_scheduled_iff_id_set_and_no_link[of "''zyxwvutsr''" room_ab alice_linked False
      link_to_bob] held
  have 3: "fire (InitiateCallTo ''zyxwvutsr'') False alice_linked
        = Inr ([SetTimeout 10000 (ConnectionTimeout (PeerObject link_to_bob)),
                CreateOffer link_to_bob], alice_linked)"
    by blast
  have 4: "fst (createPeerConnections room_a init_client) = [NewPeerConnection 0]"
    "map_of (peersRef (snd (createPeerConnections room_ab alice_joined))) (Some ''zyxwvutsr'')
        = Some link_to_bob"
    by (simp_all add: client_eval)
  from 1 2 3 4 show ?thesis by blast
qed

end
